theory Spec2Isabelle
  imports Main
begin

section \<open>Python values, failures and requests\<close>

text \<open>
  The security pipeline of \<^verbatim>\<open>connexion/security/security_handler_factory.py\<close> passes
  untyped Python objects around: the result of a verification function is \<^verbatim>\<open>None\<close>, the
  sentinel \<^verbatim>\<open>SecurityHandlerFactory.no_value = object()\<close>, or any other object (normally a
  dict of claims). \<open>pyval\<close> is the part of Python's value space the code inspects. A dict is
  an association list with string keys; a lookup reads the first binding of a key.
\<close>

datatype pyval =
    VNone
  | no_value
  | VBool bool
  | VInt int
  | VStr string
  | VList "pyval list"
  | VDict "(string \<times> pyval) list"

text \<open>
  The object \<^verbatim>\<open>requests\<close> returns for an HTTP call, as far as the code reads it:
  \<^verbatim>\<open>.ok\<close>, \<^verbatim>\<open>.status_code\<close> and the result of \<^verbatim>\<open>.json()\<close>
  (\<open>None\<close> when the body is not JSON and \<^verbatim>\<open>.json()\<close> raises).
\<close>

record response =
  ok :: bool
  status_code :: nat
  json :: "pyval option"

text \<open>
  Exceptions are values. The first four constructors are the exception classes the module
  imports from \<^verbatim>\<open>..exceptions\<close>, with the arguments the code passes;
  \<open>AttributeError\<close>, \<open>TypeError\<close> and \<open>ValueError\<close> are the interpreter's own, and
  \<open>Raised\<close> stands for any other exception of a user-supplied function or a library.
\<close>

datatype error =
    OAuthProblem string
  | OAuthResponseProblem "string option" "response option"
  | OAuthScopeProblem string "string list" pyval
  | ConnexionException string
  | AttributeError
  | TypeError
  | ValueError
  | Raised string

text \<open>The names the specification gives to the failures the code raises.\<close>

abbreviation InvalidHeader :: error where
  "InvalidHeader \<equiv> OAuthProblem ''Invalid authorization header''"

abbreviation NoAuthorization :: error where
  "NoAuthorization \<equiv> OAuthProblem ''No authorization token provided''"

abbreviation InvalidToken :: error where
  "InvalidToken \<equiv> OAuthResponseProblem (Some ''Provided token is not valid'') None"

abbreviation InvalidCredentials :: error where
  "InvalidCredentials \<equiv> OAuthResponseProblem (Some ''Provided authorization is not valid'') None"

abbreviation InvalidApiKey :: error where
  "InvalidApiKey \<equiv> OAuthResponseProblem (Some ''Provided apikey is not valid'') None"

abbreviation InsufficientScope :: "string list \<Rightarrow> pyval \<Rightarrow> error" where
  "InsufficientScope \<equiv> OAuthScopeProblem ''Provided token doesn't have the required scope''"

text \<open>
  A request as the handlers read it: the header and query mappings
  (\<^verbatim>\<open>request.headers.get\<close>, \<^verbatim>\<open>request.query.get\<close>) and the mutable
  \<^verbatim>\<open>request.context\<close> dict.
\<close>

record request =
  headers :: "string \<rightharpoonup> string"
  query :: "string \<rightharpoonup> string"
  "context" :: "string \<rightharpoonup> pyval"

text \<open>
  Verification functions are supplied by the user and may do anything (a remote call, a
  counter): a computation takes the state of the world and returns either the raised
  exception or its result, with the new state.
\<close>

type_synonym ('s, 'a) eff = "'s \<Rightarrow> (error + 'a) \<times> 's"

type_synonym 's auth_func = "request \<Rightarrow> string list \<Rightarrow> ('s, pyval) eff"

text \<open>
  \<^verbatim>\<open>obj.get(key, default)\<close>: a dict answers, every other object of \<open>pyval\<close> has no
  attribute \<^verbatim>\<open>get\<close>.
\<close>

fun py_get :: "pyval \<Rightarrow> string \<Rightarrow> pyval \<Rightarrow> error + pyval" where
  "py_get (VDict d) key dflt = Inr (case map_of d key of Some v \<Rightarrow> v | None \<Rightarrow> dflt)"
| "py_get _ key dflt = Inl AttributeError"

text \<open>
  Truth value of an object in \<^verbatim>\<open>if not validation\<close>: \<^verbatim>\<open>None\<close>, \<^verbatim>\<open>False\<close>, zero and
  empty containers are falsy, every other object (the sentinel too) is truthy.
\<close>

fun truthy :: "pyval \<Rightarrow> bool" where
  "truthy VNone = False"
| "truthy no_value = True"
| "truthy (VBool b) = b"
| "truthy (VInt i) = (i \<noteq> 0)"
| "truthy (VStr s) = (s \<noteq> [])"
| "truthy (VList xs) = (xs \<noteq> [])"
| "truthy (VDict d) = (d \<noteq> [])"

text \<open>\<^verbatim>\<open>set(xs)\<close> hashes every element: a list or a dict inside raises \<^verbatim>\<open>TypeError\<close>.\<close>

fun hashable :: "pyval \<Rightarrow> bool" where
  "hashable (VList xs) = False"
| "hashable (VDict d) = False"
| "hashable _ = True"

section \<open>Strings\<close>

text \<open>
  A \<open>char\<close> is a code point below 256 (header values reach the code as Latin-1 text).
  \<open>isspace\<close> holds of the code points \<^verbatim>\<open>str.split()\<close> treats as whitespace there:
  9 to 13, 28 to 32, 133 and 160.
\<close>

definition isspace :: "char \<Rightarrow> bool" where
  "isspace c = (c \<in> set [CHR 0x09, CHR 0x0A, CHR 0x0B, CHR 0x0C, CHR 0x0D, CHR 0x1C, CHR 0x1D,
                          CHR 0x1E, CHR 0x1F, CHR 0x20, CHR 0x85, CHR 0xA0])"

text \<open>
  \<^verbatim>\<open>s.split()\<close>: the maximal runs of non-whitespace characters, in order. \<open>cur\<close> is the
  run being read.
\<close>

fun split_words :: "string \<Rightarrow> string \<Rightarrow> string list" where
  "split_words cur [] = (if cur = [] then [] else [cur])"
| "split_words cur (c # cs) =
     (if isspace c then (if cur = [] then split_words [] cs else cur # split_words [] cs)
      else split_words (cur @ [c]) cs)"

definition py_split :: "string \<Rightarrow> string list" where
  "py_split s = split_words [] s"

text \<open>
  \<^verbatim>\<open>s.split(None, 1)\<close>: leading whitespace is skipped, the first run of non-whitespace
  characters is the first item, and what follows the whitespace after it, when anything
  does, is the second item, kept as it is.
\<close>

definition split_maxsplit1 :: "string \<Rightarrow> string list" where
  "split_maxsplit1 s =
     (let s1 = dropWhile isspace s in
      if s1 = [] then []
      else (let word = takeWhile (\<lambda>c. \<not> isspace c) s1;
                rest = dropWhile isspace (dropWhile (\<lambda>c. \<not> isspace c) s1)
            in if rest = [] then [word] else [word, rest]))"


text \<open>
  \<^verbatim>\<open>s.lower()\<close> on code points below 256: the letters A to Z and the capital letters
  192 to 222 other than the multiplication sign 215 move up by 32.
\<close>

definition lower_char :: "char \<Rightarrow> char" where
  "lower_char c =
     (let n = (of_char c :: nat) in
      if (65 \<le> n \<and> n \<le> 90) \<or> (192 \<le> n \<and> n \<le> 214) \<or> (216 \<le> n \<and> n \<le> 222)
      then char_of (n + 32) else c)"

definition lower :: "string \<Rightarrow> string" where
  "lower s = map lower_char s"

section \<open>Resolving verification functions\<close>







text \<open>
  \<^verbatim>\<open>security_passthrough\<close> returns the handler; \<^verbatim>\<open>security_deny\<close> returns
  \<^verbatim>\<open>deny\<close>, which raises whatever it is called with.
\<close>

definition security_passthrough :: "(request \<Rightarrow> ('s, 'r) eff) \<Rightarrow> request \<Rightarrow> ('s, 'r) eff" where
  "security_passthrough function = function"


section \<open>Scope validation\<close>

text \<open>
  \<^verbatim>\<open>
  required_scopes = set(required_scopes)
  if isinstance(token_scopes, list):
      token_scopes = set(token_scopes)
  else:
      token_scopes = set(token_scopes.split())
  if not required_scopes <= token_scopes:
      return False
  return True
  \<close>
  The required scopes are the list of scope names of the operation. An object that is
  neither a list nor a string has no \<^verbatim>\<open>split\<close>.
\<close>

fun validate_scope :: "string list \<Rightarrow> pyval \<Rightarrow> error + pyval" where
  "validate_scope required_scopes (VList xs) =
     (if list_all hashable xs
      then Inr (VBool (set (map VStr required_scopes) \<subseteq> set xs))
      else Inl TypeError)"
| "validate_scope required_scopes (VStr s) =
     Inr (VBool (set (map VStr required_scopes) \<subseteq> set (map VStr (py_split s))))"
| "validate_scope required_scopes _ = Inl AttributeError"

section \<open>Credential extraction\<close>

text \<open>
  \<^verbatim>\<open>
  authorization = request.headers.get('Authorization')
  if not authorization:
      return None, None
  try:
      auth_type, value = authorization.split(None, 1)
  except ValueError:
      raise OAuthProblem(description='Invalid authorization header')
  return auth_type.lower(), value
  \<close>
  The pair \<^verbatim>\<open>(None, None)\<close> is the result \<open>None\<close>; any other result is a pair of strings.
\<close>

definition get_auth_header_value :: "request \<Rightarrow> error + (string \<times> string) option" where
  "get_auth_header_value request =
     (case headers request ''Authorization'' of
        None \<Rightarrow> Inr None
      | Some authorization \<Rightarrow>
          if authorization = [] then Inr None
          else (case split_maxsplit1 authorization of
                  [auth_type, val] \<Rightarrow> Inr (Some (lower auth_type, val))
                | _ \<Rightarrow> Inl InvalidHeader))"

text \<open>
  \<^verbatim>\<open>get_cookie_value\<close>: \<^verbatim>\<open>SimpleCookie().load\<close> with the lookup of the values is the
  parameter \<open>load\<close>; \<^verbatim>\<open>str(cookies)\<close> of an absent header is the text \<^verbatim>\<open>None\<close>.
\<close>

definition get_cookie_value ::
  "(string \<Rightarrow> error + (string \<rightharpoonup> string)) \<Rightarrow> string option \<Rightarrow> string \<Rightarrow> error + string option" where
  "get_cookie_value load cookies name =
     (case load (case cookies of None \<Rightarrow> ''None'' | Some c \<Rightarrow> c) of
        Inl e \<Rightarrow> Inl e
      | Inr cookie_parser \<Rightarrow> Inr (cookie_parser name))"

section \<open>The check wrappers\<close>

text \<open>
  \<^verbatim>\<open>
  token_info = token_info_func(token)
  if token_info is cls.no_value:
      return cls.no_value
  if token_info is None:
      raise OAuthResponseProblem(description='Provided token is not valid')
  return token_info
  \<close>
  and the same in \<^verbatim>\<open>check_basic_auth\<close> and \<^verbatim>\<open>check_api_key\<close>, with their own
  arguments and descriptions.
\<close>

definition check_bearer_token ::
  "(string \<Rightarrow> ('s, pyval) eff) \<Rightarrow> request \<Rightarrow> string \<Rightarrow> string list \<Rightarrow> ('s, pyval) eff" where
  "check_bearer_token token_info_func request token required_scopes s =
     (case token_info_func token s of
        (Inl e, s') \<Rightarrow> (Inl e, s')
      | (Inr token_info, s') \<Rightarrow>
          if token_info = no_value then (Inr no_value, s')
          else if token_info = VNone then (Inl InvalidToken, s')
          else (Inr token_info, s'))"

definition check_basic_auth ::
  "(string \<Rightarrow> string \<Rightarrow> string list \<Rightarrow> ('s, pyval) eff) \<Rightarrow> request \<Rightarrow> string \<Rightarrow> string \<Rightarrow>
   string list \<Rightarrow> ('s, pyval) eff" where
  "check_basic_auth basic_info_func request username password required_scopes s =
     (case basic_info_func username password required_scopes s of
        (Inl e, s') \<Rightarrow> (Inl e, s')
      | (Inr token_info, s') \<Rightarrow>
          if token_info = no_value then (Inr no_value, s')
          else if token_info = VNone then (Inl InvalidCredentials, s')
          else (Inr token_info, s'))"

definition check_api_key ::
  "(string \<Rightarrow> string list \<Rightarrow> ('s, pyval) eff) \<Rightarrow> request \<Rightarrow> string \<Rightarrow> string list \<Rightarrow>
   ('s, pyval) eff" where
  "check_api_key api_key_info_func request api_key required_scopes s =
     (case api_key_info_func api_key required_scopes s of
        (Inl e, s') \<Rightarrow> (Inl e, s')
      | (Inr token_info, s') \<Rightarrow>
          if token_info = no_value then (Inr no_value, s')
          else if token_info = VNone then (Inl InvalidApiKey, s')
          else (Inr token_info, s'))"

text \<open>
  \<^verbatim>\<open>
  token_scopes = token_info.get('scope', token_info.get('scopes', ''))
  \<close>
\<close>

definition get_token_scopes :: "pyval \<Rightarrow> error + pyval" where
  "get_token_scopes token_info =
     (case py_get token_info ''scopes'' (VStr []) of
        Inl e \<Rightarrow> Inl e
      | Inr scopes \<Rightarrow> py_get token_info ''scope'' scopes)"

text \<open>
  \<^verbatim>\<open>
  validation = scope_validate_func(required_scopes, token_scopes)
  if not validation:
      raise OAuthScopeProblem(description=..., required_scopes=required_scopes,
                              token_scopes=token_scopes)
  return token_info
  \<close>
\<close>

definition check_oauth_func ::
  "(string \<Rightarrow> ('s, pyval) eff) \<Rightarrow> (string list \<Rightarrow> pyval \<Rightarrow> ('s, pyval) eff) \<Rightarrow> request \<Rightarrow> string \<Rightarrow>
   string list \<Rightarrow> ('s, pyval) eff" where
  "check_oauth_func token_info_func scope_validate_func request token required_scopes s =
     (case token_info_func token s of
        (Inl e, s') \<Rightarrow> (Inl e, s')
      | (Inr token_info, s') \<Rightarrow>
          if token_info = no_value then (Inr no_value, s')
          else if token_info = VNone then (Inl InvalidToken, s')
          else (case get_token_scopes token_info of
                  Inl e \<Rightarrow> (Inl e, s')
                | Inr token_scopes \<Rightarrow>
                    (case scope_validate_func required_scopes token_scopes s' of
                       (Inl e, s'') \<Rightarrow> (Inl e, s'')
                     | (Inr validation, s'') \<Rightarrow>
                         if \<not> truthy validation
                         then (Inl (InsufficientScope required_scopes token_scopes), s'')
                         else (Inr token_info, s''))))"

text \<open>The default scope validator, \<^verbatim>\<open>cls.validate_scope\<close>, as a computation.\<close>

definition validate_scope_func :: "string list \<Rightarrow> pyval \<Rightarrow> ('s, pyval) eff" where
  "validate_scope_func required_scopes token_scopes s =
     (validate_scope required_scopes token_scopes, s)"

section \<open>The scheme verifiers\<close>



definition verify_api_key ::
  "(string \<Rightarrow> error + (string \<rightharpoonup> string)) \<Rightarrow> (string \<Rightarrow> string list \<Rightarrow> ('s, pyval) eff) \<Rightarrow> string \<Rightarrow>
   string \<Rightarrow> 's auth_func" where
  "verify_api_key load api_key_info_func loc name request required_scopes s =
     (if loc = ''query'' \<or> loc = ''header'' \<or> loc = ''cookie'' then
        (case (if loc = ''query'' then Inr (query request name)
               else if loc = ''header'' then Inr (headers request name)
               else get_cookie_value load (headers request ''Cookie'') name) of
           Inl e \<Rightarrow> (Inl e, s)
         | Inr None \<Rightarrow> (Inr no_value, s)
         | Inr (Some api_key) \<Rightarrow>
             check_api_key api_key_info_func request api_key required_scopes s)
      else (Inr no_value, s))"

definition verify_bearer :: "(string \<Rightarrow> ('s, pyval) eff) \<Rightarrow> 's auth_func" where
  "verify_bearer token_info_func request required_scopes s =
     (case get_auth_header_value request of
        Inl e \<Rightarrow> (Inl e, s)
      | Inr None \<Rightarrow> (Inr no_value, s)
      | Inr (Some (auth_type, token)) \<Rightarrow>
          if auth_type \<noteq> ''bearer'' then (Inr no_value, s)
          else check_bearer_token token_info_func request token required_scopes s)"

section \<open>The security orchestrator\<close>

text \<open>
  \<^verbatim>\<open>
  token_info = None
  for func in auth_funcs:
      token_info = func(request, required_scopes)
      if token_info is not cls.no_value:
          break
  \<close>
  The loop, with the variable \<^verbatim>\<open>token_info\<close> as an argument. An exception of a
  verifier leaves the loop and the wrapper.
\<close>

fun auth_loop :: "'s auth_func list \<Rightarrow> request \<Rightarrow> string list \<Rightarrow> pyval \<Rightarrow> ('s, pyval) eff" where
  "auth_loop [] request required_scopes token_info s = (Inr token_info, s)"
| "auth_loop (func # auth_funcs) request required_scopes token_info s =
     (case func request required_scopes s of
        (Inl e, s') \<Rightarrow> (Inl e, s')
      | (Inr token_info', s') \<Rightarrow>
          if token_info' \<noteq> no_value then (Inr token_info', s')
          else auth_loop auth_funcs request required_scopes token_info' s')"

text \<open>
  \<^verbatim>\<open>
  if token_info is cls.no_value:
      raise OAuthProblem(description='No authorization token provided')
  request.context['user'] = token_info.get('sub', token_info.get('uid'))
  request.context['token_info'] = token_info
  return function(request)
  \<close>
  The inner \<^verbatim>\<open>token_info.get('uid')\<close> is evaluated first, as an argument of the outer call.
\<close>

definition install_context :: "pyval \<Rightarrow> request \<Rightarrow> error + request" where
  "install_context token_info request =
     (case py_get token_info ''uid'' VNone of
        Inl e \<Rightarrow> Inl e
      | Inr uid \<Rightarrow>
          (case py_get token_info ''sub'' uid of
             Inl e \<Rightarrow> Inl e
           | Inr user \<Rightarrow>
               Inr (request\<lparr>context := (context request)(''user'' \<mapsto> user,
                                                          ''token_info'' \<mapsto> token_info)\<rparr>)))"

definition verify_security ::
  "'s auth_func list \<Rightarrow> string list \<Rightarrow> (request \<Rightarrow> ('s, 'r) eff) \<Rightarrow> request \<Rightarrow> ('s, 'r) eff" where
  "verify_security auth_funcs required_scopes function request s =
     (case auth_loop auth_funcs request required_scopes VNone s of
        (Inl e, s') \<Rightarrow> (Inl e, s')
      | (Inr token_info, s') \<Rightarrow>
          if token_info = no_value then (Inl NoAuthorization, s')
          else (case install_context token_info request of
                  Inl e \<Rightarrow> (Inl e, s')
                | Inr request' \<Rightarrow> function request' s'))"

text \<open>
  The verifiers of a list all answer \<open>no_value\<close> on a request, one after the other from
  state \<open>s\<close>: the result is the state they leave. \<open>None\<close> when one of them raises or answers
  anything else.
\<close>

fun all_no_value :: "'s auth_func list \<Rightarrow> request \<Rightarrow> string list \<Rightarrow> 's \<Rightarrow> 's option" where
  "all_no_value [] request required_scopes s = Some s"
| "all_no_value (func # auth_funcs) request required_scopes s =
     (case func request required_scopes s of
        (Inl e, s') \<Rightarrow> None
      | (Inr v, s') \<Rightarrow>
          if v = no_value then all_no_value auth_funcs request required_scopes s' else None)"

section \<open>The remote token introspector\<close>





section \<open>The asynchronous factory\<close>

text \<open>
  In \<^verbatim>\<open>AsyncSecurityHandlerFactory\<close> a call may return a coroutine in place of its
  result. A coroutine is a suspended computation; awaiting it runs it and gives a
  result that may be a coroutine again.
\<close>

datatype 's aval =
    Value pyval
  | Coroutine "'s \<Rightarrow> (error + 's aval) \<times> 's"

text \<open>
  \<^verbatim>\<open>
  while asyncio.iscoroutine(token_info):
      token_info = yield from token_info
  \<close>
  The recursion goes through the result of the suspended computation.
\<close>

primrec resolve :: "'s aval \<Rightarrow> ('s, pyval) eff" where
  "resolve (Value v) = (\<lambda>s. (Inr v, s))"
| "resolve (Coroutine k) =
     (\<lambda>s. case map_prod (map_sum id resolve) id (k s) of
             (Inl e, s') \<Rightarrow> (Inl e, s')
           | (Inr run, s') \<Rightarrow> run s')"

text \<open>A call followed by the loop that awaits its result.\<close>

definition awaited :: "('s, 's aval) eff \<Rightarrow> ('s, pyval) eff" where
  "awaited call s = (case call s of (Inl e, s') \<Rightarrow> (Inl e, s') | (Inr a, s') \<Rightarrow> resolve a s')"

text \<open>
  The four check wrappers are coroutine functions: a call returns the coroutine, and the
  body runs when it is awaited.
\<close>

definition async_check_bearer_token ::
  "(string \<Rightarrow> ('s, 's aval) eff) \<Rightarrow> request \<Rightarrow> string \<Rightarrow> string list \<Rightarrow> 's aval" where
  "async_check_bearer_token token_info_func request token required_scopes =
     Coroutine (\<lambda>s.
       case awaited (token_info_func token) s of
         (Inl e, s') \<Rightarrow> (Inl e, s')
       | (Inr token_info, s') \<Rightarrow>
           if token_info = no_value then (Inr (Value no_value), s')
           else if token_info = VNone then (Inl InvalidToken, s')
           else (Inr (Value token_info), s'))"

definition async_check_basic_auth ::
  "(string \<Rightarrow> string \<Rightarrow> string list \<Rightarrow> ('s, 's aval) eff) \<Rightarrow> request \<Rightarrow> string \<Rightarrow> string \<Rightarrow>
   string list \<Rightarrow> 's aval" where
  "async_check_basic_auth basic_info_func request username password required_scopes =
     Coroutine (\<lambda>s.
       case awaited (basic_info_func username password required_scopes) s of
         (Inl e, s') \<Rightarrow> (Inl e, s')
       | (Inr token_info, s') \<Rightarrow>
           if token_info = no_value then (Inr (Value no_value), s')
           else if token_info = VNone then (Inl InvalidCredentials, s')
           else (Inr (Value token_info), s'))"

definition async_check_api_key ::
  "(string \<Rightarrow> string list \<Rightarrow> ('s, 's aval) eff) \<Rightarrow> request \<Rightarrow> string \<Rightarrow> string list \<Rightarrow> 's aval" where
  "async_check_api_key api_key_info_func request api_key required_scopes =
     Coroutine (\<lambda>s.
       case awaited (api_key_info_func api_key required_scopes) s of
         (Inl e, s') \<Rightarrow> (Inl e, s')
       | (Inr token_info, s') \<Rightarrow>
           if token_info = no_value then (Inr (Value no_value), s')
           else if token_info = VNone then (Inl InvalidApiKey, s')
           else (Inr (Value token_info), s'))"

definition async_check_oauth_func ::
  "(string \<Rightarrow> ('s, 's aval) eff) \<Rightarrow> (string list \<Rightarrow> pyval \<Rightarrow> ('s, 's aval) eff) \<Rightarrow> request \<Rightarrow>
   string \<Rightarrow> string list \<Rightarrow> 's aval" where
  "async_check_oauth_func token_info_func scope_validate_func request token required_scopes =
     Coroutine (\<lambda>s.
       case awaited (token_info_func token) s of
         (Inl e, s') \<Rightarrow> (Inl e, s')
       | (Inr token_info, s') \<Rightarrow>
           if token_info = no_value then (Inr (Value no_value), s')
           else if token_info = VNone then (Inl InvalidToken, s')
           else (case get_token_scopes token_info of
                   Inl e \<Rightarrow> (Inl e, s')
                 | Inr token_scopes \<Rightarrow>
                     (case awaited (scope_validate_func required_scopes token_scopes) s' of
                        (Inl e, s'') \<Rightarrow> (Inl e, s'')
                      | (Inr validation, s'') \<Rightarrow>
                          if \<not> truthy validation
                          then (Inl (InsufficientScope required_scopes token_scopes), s'')
                          else (Inr (Value token_info), s''))))"

text \<open>
  \<^verbatim>\<open>AsyncSecurityHandlerFactory.verify_security\<close>: the loop awaits what each verifier
  returns before it looks at it. The definitions give the run of the coroutine the wrapper
  returns.
\<close>

type_synonym 's async_auth_func = "request \<Rightarrow> string list \<Rightarrow> ('s, 's aval) eff"

fun async_auth_loop ::
  "'s async_auth_func list \<Rightarrow> request \<Rightarrow> string list \<Rightarrow> pyval \<Rightarrow> ('s, pyval) eff" where
  "async_auth_loop [] request required_scopes token_info s = (Inr token_info, s)"
| "async_auth_loop (func # auth_funcs) request required_scopes token_info s =
     (case awaited (func request required_scopes) s of
        (Inl e, s') \<Rightarrow> (Inl e, s')
      | (Inr token_info', s') \<Rightarrow>
          if token_info' \<noteq> no_value then (Inr token_info', s')
          else async_auth_loop auth_funcs request required_scopes token_info' s')"

definition async_verify_security ::
  "'s async_auth_func list \<Rightarrow> string list \<Rightarrow> (request \<Rightarrow> ('s, 'r) eff) \<Rightarrow> request \<Rightarrow> ('s, 'r) eff" where
  "async_verify_security auth_funcs required_scopes function request s =
     (case async_auth_loop auth_funcs request required_scopes VNone s of
        (Inl e, s') \<Rightarrow> (Inl e, s')
      | (Inr token_info, s') \<Rightarrow>
          if token_info = no_value then (Inl NoAuthorization, s')
          else (case install_context token_info request of
                  Inl e \<Rightarrow> (Inl e, s')
                | Inr request' \<Rightarrow> function request' s'))"


section \<open>Notions of the statements and example inputs\<close>

text \<open>
  A verifier of the asynchronous factory, followed by the loop that awaits what it returned:
  the verifier the orchestrator sees once the result is there.
\<close>

definition awaited_func :: "'s async_auth_func \<Rightarrow> 's auth_func" where
  "awaited_func func request required_scopes = awaited (func request required_scopes)"

text \<open>
  A verifier that returns its result at once, given to the asynchronous factory: its result
  is never a coroutine.
\<close>

definition immediate :: "'s auth_func \<Rightarrow> 's async_auth_func" where
  "immediate func request required_scopes s =
     (case func request required_scopes s of (Inl e, s') \<Rightarrow> (Inl e, s') | (Inr v, s') \<Rightarrow> (Inr (Value v), s'))"

text \<open>
  Example inputs. A request without headers or query parameters, and a handler that answers
  with the identity it finds in the context and counts its calls in the state.
\<close>

definition anonymous_request :: request where
  "anonymous_request = \<lparr>headers = Map.empty, query = Map.empty, context = Map.empty\<rparr>"

definition echo_handler :: "request \<Rightarrow> (nat, pyval option \<times> pyval option) eff" where
  "echo_handler request s = (Inr (context request ''user'', context request ''token_info''), Suc s)"

text \<open>
  Verifiers that write their name to a log, the state, when they run: at once, or when the
  coroutine they return is awaited.
\<close>

definition logging_verifier :: "string \<Rightarrow> pyval \<Rightarrow> (string list) auth_func" where
  "logging_verifier name v request required_scopes log = (Inr v, log @ [name])"

definition logging_coroutine :: "string \<Rightarrow> pyval \<Rightarrow> (string list) async_auth_func" where
  "logging_coroutine name v request required_scopes log =
     (Inr (Coroutine (\<lambda>log'. (Inr (Value v), log' @ [name]))), log)"

text \<open>
  The granted scopes as a set of names, for the statement of the subset test: the words of a
  string, the strings of a list.
\<close>

fun scope_names :: "pyval list \<Rightarrow> string list" where
  "scope_names [] = []"
| "scope_names (VStr x # xs) = x # scope_names xs"
| "scope_names (_ # xs) = scope_names xs"

fun granted_set :: "pyval \<Rightarrow> string set" where
  "granted_set (VStr s) = set (py_split s)"
| "granted_set (VList xs) = set (scope_names xs)"
| "granted_set _ = {}"

text \<open>
  The two forms of granted scopes \<^verbatim>\<open>validate_scope\<close> accepts: a string, or a list whose
  elements can be hashed.
\<close>

definition well_formed_scopes :: "pyval \<Rightarrow> bool" where
  "well_formed_scopes token_scopes =
     (case token_scopes of VStr s \<Rightarrow> True | VList xs \<Rightarrow> list_all hashable xs | _ \<Rightarrow> False)"






section \<open>The synchronous loop\<close>

lemma auth_loop_all_no_value:
  "all_no_value fs request sc s = Some s' \<Longrightarrow> fs \<noteq> [] \<Longrightarrow>
   auth_loop fs request sc tok s = (Inr no_value, s')"
proof (induction fs arbitrary: s tok)
  case Nil
  then show ?case by simp
next
  case (Cons f fs)
  obtain r s1 where f: "f request sc s = (r, s1)" by (cases "f request sc s")
  with Cons.prems(1) have r: "r = Inr no_value" and rest: "all_no_value fs request sc s1 = Some s'"
    by (auto split: sum.splits if_splits)
  show ?case
  proof (cases "fs = []")
    case True
    with f r rest show ?thesis by simp
  next
    case False
    with Cons.IH [OF rest False] f r show ?thesis by simp
  qed
qed

lemma verify_security_no_auth:
  "all_no_value fs request sc s = Some s' \<Longrightarrow> fs \<noteq> [] \<Longrightarrow>
   verify_security fs sc function request s = (Inl NoAuthorization, s')"
  by (simp add: verify_security_def auth_loop_all_no_value)

lemma verify_security_Nil:
  "verify_security [] sc function request s = (Inl AttributeError, s)"
  by (simp add: verify_security_def install_context_def)

lemma auth_loop_first_match:
  "all_no_value pre request sc s = Some s1 \<Longrightarrow> g request sc s1 = (r, s2) \<Longrightarrow> r \<noteq> Inr no_value \<Longrightarrow>
   auth_loop (pre @ g # rest) request sc tok s = (r, s2)"
proof (induction pre arbitrary: s tok)
  case Nil
  then show ?case by (cases r) auto
next
  case (Cons f pre)
  obtain q s0 where f: "f request sc s = (q, s0)" by (cases "f request sc s")
  with Cons.prems(1) have q: "q = Inr no_value" and rest: "all_no_value pre request sc s0 = Some s1"
    by (auto split: sum.splits if_splits)
  from Cons.IH [OF rest Cons.prems(2,3)] f q show ?case by simp
qed

lemma verify_security_first_match:
  assumes "all_no_value pre request sc s = Some s1" "g request sc s1 = (r, s2)" "r \<noteq> Inr no_value"
  shows "verify_security (pre @ g # rest) sc function request s =
         verify_security [g] sc function request s1"
  using auth_loop_first_match [of pre request sc s s1 g r s2 rest VNone] assms
  by (cases r) (auto simp: verify_security_def)

section \<open>The asynchronous loop\<close>

lemma resolve_Coroutine:
  "resolve (Coroutine k) s =
     (case k s of (Inl e, s') \<Rightarrow> (Inl e, s') | (Inr a, s') \<Rightarrow> resolve a s')"
  by (simp split: prod.splits sum.splits)

lemma async_auth_loop_eq:
  "async_auth_loop afs request sc tok s = auth_loop (map awaited_func afs) request sc tok s"
  by (induction afs arbitrary: tok s) (auto simp: awaited_func_def split: prod.splits sum.splits)

lemma async_verify_security_eq:
  "async_verify_security afs sc function request s =
   verify_security (map awaited_func afs) sc function request s"
  by (simp add: async_verify_security_def verify_security_def async_auth_loop_eq)

lemma awaited_immediate: "awaited_func (immediate f) = f"
  by (auto simp: awaited_func_def immediate_def awaited_def fun_eq_iff split: prod.splits sum.splits)

section \<open>The orchestrator\<close>

text \<open>
  Claim C10: with an empty list of verifiers the loop body does not run and \<^verbatim>\<open>token_info\<close>
  is still \<^verbatim>\<open>None\<close>, which is not the sentinel; the wrapper does not raise
  \<open>NoAuthorization\<close>, it reaches the lookup of the subject on \<^verbatim>\<open>None\<close> and raises
  \<open>AttributeError\<close>, for every request, handler and state.
\<close>

theorem verify_security_empty_list:
  "verify_security [] required_scopes function request s = (Inl AttributeError, s)
   \<and> auth_loop [] request required_scopes VNone s = (Inr VNone, s)
   \<and> VNone \<noteq> no_value
   \<and> install_context VNone request = Inl AttributeError
   \<and> fst (verify_security [] required_scopes function request s) \<noteq> Inl NoAuthorization"
  by (simp add: verify_security_def install_context_def)

text \<open>
  The anonymous request through the wrapper without verifiers.
\<close>

theorem verify_security_empty_list_witness:
  "verify_security [] [] echo_handler anonymous_request 0 = (Inl AttributeError, 0)"
  using verify_security_empty_list [of "[]" echo_handler anonymous_request 0] by simp

text \<open>
  Claim C1: on a request for which every configured verifier answers \<open>no_value\<close>, the
  wrapper raises \<open>NoAuthorization\<close> and the handler is not invoked. With one verifier or
  more this is the lemma above. With no verifier configured the condition holds of every
  request, and the wrapper raises \<open>AttributeError\<close>: \<^verbatim>\<open>token_info\<close> starts as
  \<^verbatim>\<open>None\<close>, which is not the sentinel the test after the loop looks for. The evaluation
  below is the wrapper on the empty list.
\<close>

theorem verify_security_no_verifiers_example:
  "verify_security [] [''read''] echo_handler anonymous_request 0 = (Inl AttributeError, 0)
   \<and> verify_security [] [''read''] echo_handler anonymous_request 0 \<noteq> (Inl NoAuthorization, 0)"
  by (simp add: verify_security_def install_context_def)

text \<open>
  Claim C2: when a verifier returns a dict \<open>d\<close> (every verifier before it answered
  \<open>no_value\<close>, or it would not have run), the handler is invoked on the request whose
  context holds, under \<open>user\<close>, the value of \<open>sub\<close> in \<open>d\<close> when the key is there
  and else the value of \<open>uid\<close> (\<^verbatim>\<open>None\<close> without both), and, under \<open>token_info\<close>, the
  dict \<open>d\<close> itself with all its entries. The result and the state are the handler's.
\<close>

theorem verify_security_installs_context:
  assumes "all_no_value pre request sc s = Some s1"
    and "g request sc s1 = (Inr (VDict d), s2)"
  shows "verify_security (pre @ g # rest) sc function request s =
         function (request\<lparr>context := (context request)
            (''user'' \<mapsto> (case map_of d ''sub'' of
                              Some sub \<Rightarrow> sub
                            | None \<Rightarrow> (case map_of d ''uid'' of Some uid \<Rightarrow> uid | None \<Rightarrow> VNone)),
             ''token_info'' \<mapsto> VDict d)\<rparr>) s2"
proof -
  have "auth_loop (pre @ g # rest) request sc VNone s = (Inr (VDict d), s2)"
    using auth_loop_first_match [of pre request sc s s1 g "Inr (VDict d)" s2 rest VNone] assms
    by simp
  then show ?thesis
    by (simp add: verify_security_def install_context_def)
qed

text \<open>
  An API key in the query with a bearer verifier declared first: the token info carries
  \<open>uid\<close> and no \<open>sub\<close>, the handler sees \<open>alice\<close> and the whole dict, and the third
  verifier does not run.
\<close>

theorem verify_security_installs_context_witness:
  "verify_security
     [verify_bearer (\<lambda>token s. (Inr VNone, Suc s)),
      verify_api_key (\<lambda>c. Inr Map.empty)
        (\<lambda>key scopes s. (Inr (VDict [(''uid'', VStr ''alice''), (''plan'', VInt 7)]), s + 10))
        ''query'' ''api_key'',
      verify_bearer (\<lambda>token s. (Inl (Raised ''unreachable''), s + 100))]
     [] echo_handler (anonymous_request\<lparr>query := [''api_key'' \<mapsto> ''k1'']\<rparr>) 0
   = (Inr (Some (VStr ''alice''),
           Some (VDict [(''uid'', VStr ''alice''), (''plan'', VInt 7)])), 11)"
  using verify_security_installs_context
    [of "[verify_bearer (\<lambda>token s. (Inr VNone, Suc s))]"
        "anonymous_request\<lparr>query := [''api_key'' \<mapsto> ''k1'']\<rparr>" "[]" 0 0
        "verify_api_key (\<lambda>c. Inr Map.empty)
          (\<lambda>key scopes s. (Inr (VDict [(''uid'', VStr ''alice''), (''plan'', VInt 7)]), s + 10))
          ''query'' ''api_key''"
        "[(''uid'', VStr ''alice''), (''plan'', VInt 7)]" 10
        "[verify_bearer (\<lambda>token s. (Inl (Raised ''unreachable''), s + 100))]" echo_handler]
  by (simp add: verify_bearer_def verify_api_key_def check_api_key_def get_auth_header_value_def
        anonymous_request_def echo_handler_def)

text \<open>
  Claim C3: the verifiers run in the order of the list, each from the state the one before
  left. When the verifiers of \<open>pre\<close> answer \<open>no_value\<close> and the next one, \<open>g\<close>, returns
  or raises anything else, the loop ends with the result of \<open>g\<close> in the state \<open>g\<close>
  left: whatever follows \<open>g\<close> in the list has no part in the result or in the state, so it
  was not invoked. The same holds of the asynchronous loop, where a result is awaited before
  the next verifier is called.
\<close>

theorem verify_security_short_circuit:
  "(all_no_value pre request sc s = Some s1 \<and> g request sc s1 = (r, s2) \<and> r \<noteq> Inr no_value \<longrightarrow>
      auth_loop (pre @ g # rest) request sc VNone s = (r, s2) \<and>
      verify_security (pre @ g # rest) sc function request s =
        verify_security [g] sc function request s1)
   \<and> (all_no_value (map awaited_func apre) request sc s = Some s1 \<and>
        awaited (ag request sc) s1 = (r, s2) \<and> r \<noteq> Inr no_value \<longrightarrow>
      async_auth_loop (apre @ ag # arest) request sc VNone s = (r, s2) \<and>
      async_verify_security (apre @ ag # arest) sc function request s =
        async_verify_security [ag] sc function request s1)"
proof (intro conjI impI)
  assume a: "all_no_value pre request sc s = Some s1 \<and> g request sc s1 = (r, s2) \<and> r \<noteq> Inr no_value"
  then show "auth_loop (pre @ g # rest) request sc VNone s = (r, s2)"
    using auth_loop_first_match [of pre request sc s s1 g r s2 rest VNone] by simp
  from a show "verify_security (pre @ g # rest) sc function request s =
        verify_security [g] sc function request s1"
    using verify_security_first_match [of pre request sc s s1 g r s2 rest "function"] by simp
next
  assume a: "all_no_value (map awaited_func apre) request sc s = Some s1 \<and>
        awaited (ag request sc) s1 = (r, s2) \<and> r \<noteq> Inr no_value"
  then have g: "awaited_func ag request sc s1 = (r, s2)" by (simp add: awaited_func_def)
  from a g show "async_auth_loop (apre @ ag # arest) request sc VNone s = (r, s2)"
    using auth_loop_first_match [of "map awaited_func apre" request sc s s1 "awaited_func ag" r s2
        "map awaited_func arest" VNone]
    by (simp add: async_auth_loop_eq)
  from a g show "async_verify_security (apre @ ag # arest) sc function request s =
        async_verify_security [ag] sc function request s1"
    using verify_security_first_match [of "map awaited_func apre" request sc s s1 "awaited_func ag"
        r s2 "map awaited_func arest" "function"]
    by (simp add: async_verify_security_eq)
qed

text \<open>
  Three verifiers that log their calls: the second one matches, and the log holds the first
  two names only, in both factories.
\<close>

theorem verify_security_short_circuit_witness:
  "auth_loop [logging_verifier ''bearer'' no_value, logging_verifier ''basic'' (VDict []),
              logging_verifier ''apiKey'' (VDict [(''sub'', VStr ''late'')])]
     anonymous_request [] VNone [] = (Inr (VDict []), [''bearer'', ''basic''])
   \<and> async_auth_loop [logging_coroutine ''bearer'' no_value, logging_coroutine ''basic'' (VDict []),
              logging_coroutine ''apiKey'' (VDict [(''sub'', VStr ''late'')])]
     anonymous_request [] VNone [] = (Inr (VDict []), [''bearer'', ''basic''])"
  using verify_security_short_circuit
    [of "[logging_verifier ''bearer'' no_value]" anonymous_request "[]" "[]" "[''bearer'']"
        "logging_verifier ''basic'' (VDict [])" "Inr (VDict [])" "[''bearer'', ''basic'']"
        "[logging_verifier ''apiKey'' (VDict [(''sub'', VStr ''late'')])]"
        "\<lambda>request s. (Inr (), s)"
        "[logging_coroutine ''bearer'' no_value]"
        "logging_coroutine ''basic'' (VDict [])"
        "[logging_coroutine ''apiKey'' (VDict [(''sub'', VStr ''late'')])]"]
  by (simp add: logging_verifier_def logging_coroutine_def awaited_func_def awaited_def)

section \<open>Scope validation\<close>

lemma set_scope_names: "x \<in> set (scope_names xs) \<longleftrightarrow> VStr x \<in> set xs"
  by (induction xs rule: scope_names.induct) auto

lemma subset_VStr: "VStr ` A \<subseteq> set xs \<longleftrightarrow> A \<subseteq> set (scope_names xs)"
  by (auto simp: set_scope_names subset_iff)

lemma VStr_image_subset: "VStr ` A \<subseteq> VStr ` B \<longleftrightarrow> A \<subseteq> B"
  by auto

lemma scope_names_map_VStr: "scope_names (map VStr gs) = gs"
  by (induction gs) auto

lemma validate_scope_VStr:
  "validate_scope required_scopes (VStr g) = Inr (VBool (set required_scopes \<subseteq> granted_set (VStr g)))"
  by (simp add: VStr_image_subset)

lemma validate_scope_VList:
  "list_all hashable xs \<Longrightarrow>
   validate_scope required_scopes (VList xs) = Inr (VBool (set required_scopes \<subseteq> granted_set (VList xs)))"
  by (simp add: subset_VStr)

lemma hashable_map_VStr: "list_all hashable (map VStr gs)"
  by (induction gs) auto

lemma get_token_scopes_VDict:
  "get_token_scopes (VDict d) =
     Inr (case map_of d ''scope'' of
            Some v \<Rightarrow> v
          | None \<Rightarrow> (case map_of d ''scopes'' of Some v \<Rightarrow> v | None \<Rightarrow> VStr []))"
  by (simp add: get_token_scopes_def)

lemma validate_scope_granted:
  "well_formed_scopes g \<Longrightarrow>
   validate_scope required_scopes g = Inr (VBool (set required_scopes \<subseteq> granted_set g))"
  by (cases g) (simp_all add: well_formed_scopes_def subset_VStr VStr_image_subset)

text \<open>
  Claim C5: \<^verbatim>\<open>validate_scope\<close> returns \<^verbatim>\<open>True\<close> exactly when every required scope is
  among the granted ones, the words of a granted string or the elements of a granted list;
  so scopes that validate still validate when more are granted. \<^verbatim>\<open>check_oauth_func\<close>
  reads the granted scopes under \<open>scope\<close>, else under \<open>scopes\<close>, else takes the empty
  string, and raises \<open>InsufficientScope\<close> with the required scopes and the granted scopes
  it read exactly when the validator's answer is falsy; with \<^verbatim>\<open>validate_scope\<close> as the
  validator, exactly when a required scope is not granted.
\<close>

theorem scope_validation:
  "validate_scope required_scopes (VStr g) =
     Inr (VBool (set required_scopes \<subseteq> set (py_split g)))
   \<and> validate_scope required_scopes (VList (map VStr gs)) =
     Inr (VBool (set required_scopes \<subseteq> set gs))
   \<and> (well_formed_scopes granted \<longrightarrow>
        validate_scope required_scopes granted =
          Inr (VBool (set required_scopes \<subseteq> granted_set granted)))
   \<and> (well_formed_scopes granted \<and> well_formed_scopes granted' \<and>
        granted_set granted \<subseteq> granted_set granted' \<and>
        validate_scope required_scopes granted = Inr (VBool True) \<longrightarrow>
        validate_scope required_scopes granted' = Inr (VBool True))
   \<and> (token_info_func token s = (Inr (VDict d), s1) \<and>
        token_scopes = (case map_of d ''scope'' of
                          Some v \<Rightarrow> v
                        | None \<Rightarrow> (case map_of d ''scopes'' of Some v \<Rightarrow> v | None \<Rightarrow> VStr [])) \<and>
        scope_validate_func required_scopes token_scopes s1 = (Inr validation, s2) \<longrightarrow>
        check_oauth_func token_info_func scope_validate_func request token required_scopes s =
          (if truthy validation then Inr (VDict d)
           else Inl (InsufficientScope required_scopes token_scopes), s2))
   \<and> (token_info_func token s = (Inr (VDict d), s1) \<and>
        token_scopes = (case map_of d ''scope'' of
                          Some v \<Rightarrow> v
                        | None \<Rightarrow> (case map_of d ''scopes'' of Some v \<Rightarrow> v | None \<Rightarrow> VStr [])) \<and>
        well_formed_scopes token_scopes \<longrightarrow>
        check_oauth_func token_info_func validate_scope_func request token required_scopes s =
          (if set required_scopes \<subseteq> granted_set token_scopes then Inr (VDict d)
           else Inl (InsufficientScope required_scopes token_scopes), s1))"
proof (intro conjI impI)
  show "validate_scope required_scopes (VStr g) = Inr (VBool (set required_scopes \<subseteq> set (py_split g)))"
    using validate_scope_VStr [of required_scopes g] by simp
  show "validate_scope required_scopes (VList (map VStr gs)) = Inr (VBool (set required_scopes \<subseteq> set gs))"
    using validate_scope_VList [OF hashable_map_VStr, of required_scopes gs]
    by (simp add: scope_names_map_VStr)
  show "validate_scope required_scopes granted = Inr (VBool (set required_scopes \<subseteq> granted_set granted))"
    if "well_formed_scopes granted"
    using that by (rule validate_scope_granted)
  show "validate_scope required_scopes granted' = Inr (VBool True)"
    if "well_formed_scopes granted \<and> well_formed_scopes granted' \<and>
        granted_set granted \<subseteq> granted_set granted' \<and>
        validate_scope required_scopes granted = Inr (VBool True)"
  proof -
    from that have wf: "well_formed_scopes granted" and wf': "well_formed_scopes granted'"
      and sub: "granted_set granted \<subseteq> granted_set granted'"
      and ok: "validate_scope required_scopes granted = Inr (VBool True)"
      by simp_all
    from ok have "set required_scopes \<subseteq> granted_set granted"
      by (simp add: validate_scope_granted [OF wf])
    with sub have "set required_scopes \<subseteq> granted_set granted'" by blast
    then show ?thesis by (simp add: validate_scope_granted [OF wf'])
  qed
  show "check_oauth_func token_info_func scope_validate_func request token required_scopes s =
          (if truthy validation then Inr (VDict d)
           else Inl (InsufficientScope required_scopes token_scopes), s2)"
    if "token_info_func token s = (Inr (VDict d), s1) \<and>
        token_scopes = (case map_of d ''scope'' of
                          Some v \<Rightarrow> v
                        | None \<Rightarrow> (case map_of d ''scopes'' of Some v \<Rightarrow> v | None \<Rightarrow> VStr [])) \<and>
        scope_validate_func required_scopes token_scopes s1 = (Inr validation, s2)"
  proof -
    from that have "token_info_func token s = (Inr (VDict d), s1)"
      and "get_token_scopes (VDict d) = Inr token_scopes"
      and "scope_validate_func required_scopes token_scopes s1 = (Inr validation, s2)"
      by (auto simp: get_token_scopes_VDict)
    then show ?thesis by (simp add: check_oauth_func_def)
  qed
  show "check_oauth_func token_info_func validate_scope_func request token required_scopes s =
          (if set required_scopes \<subseteq> granted_set token_scopes then Inr (VDict d)
           else Inl (InsufficientScope required_scopes token_scopes), s1)"
    if "token_info_func token s = (Inr (VDict d), s1) \<and>
        token_scopes = (case map_of d ''scope'' of
                          Some v \<Rightarrow> v
                        | None \<Rightarrow> (case map_of d ''scopes'' of Some v \<Rightarrow> v | None \<Rightarrow> VStr [])) \<and>
        well_formed_scopes token_scopes"
  proof -
    from that have "token_info_func token s = (Inr (VDict d), s1)"
      and "get_token_scopes (VDict d) = Inr token_scopes"
      and "validate_scope required_scopes token_scopes =
           Inr (VBool (set required_scopes \<subseteq> granted_set token_scopes))"
      by (auto simp: get_token_scopes_VDict validate_scope_granted)
    then show ?thesis by (simp add: check_oauth_func_def validate_scope_func_def)
  qed
qed

lemma py_split_read_write: "py_split ''read write'' = [''read'', ''write'']"
  by (simp add: py_split_def isspace_def)

text \<open>
  A token with the legacy key \<open>scopes\<close> that lacks a required scope, and a token with a
  \<open>scope\<close> string that grants what is required.
\<close>

theorem scope_validation_witness:
  "validate_scope [''read''] (VStr ''read write'') = Inr (VBool True)
   \<and> validate_scope [''read'', ''admin''] (VList [VStr ''read'', VStr ''write'']) = Inr (VBool False)
   \<and> check_oauth_func (\<lambda>token s. (Inr (VDict [(''uid'', VStr ''bob''), (''scopes'', VList [VStr ''read''])]), Suc s))
        validate_scope_func anonymous_request ''xyz'' [''read'', ''admin''] (0::nat)
      = (Inl (InsufficientScope [''read'', ''admin''] (VList [VStr ''read''])), 1)
   \<and> check_oauth_func (\<lambda>token s. (Inr (VDict [(''sub'', VStr ''bob''), (''scope'', VStr ''read write'')]), Suc s))
        validate_scope_func anonymous_request ''xyz'' [''read''] (0::nat)
      = (Inr (VDict [(''sub'', VStr ''bob''), (''scope'', VStr ''read write'')]), 1)"
  using scope_validation [of "[''read'']" "''read write''" "[]" "VStr ''read write''" "VStr ''read write''"
      "\<lambda>token s. (Inr (VDict [(''sub'', VStr ''bob''), (''scope'', VStr ''read write'')]), Suc s)"
      "''xyz''" "0::nat" "[(''sub'', VStr ''bob''), (''scope'', VStr ''read write'')]" 1
      "VStr ''read write''" validate_scope_func "VBool True" "1::nat" anonymous_request]
    scope_validation [of "[''read'', ''admin'']" "''read''" "[''read'', ''write'']" "VList [VStr ''read'']" "VList [VStr ''read'']"
      "\<lambda>token s. (Inr (VDict [(''uid'', VStr ''bob''), (''scopes'', VList [VStr ''read''])]), Suc s)"
      "''xyz''" "0::nat" "[(''uid'', VStr ''bob''), (''scopes'', VList [VStr ''read''])]" 1
      "VList [VStr ''read'']" validate_scope_func "VBool False" "1::nat" anonymous_request]
  by (simp add: py_split_read_write well_formed_scopes_def validate_scope_func_def)

section \<open>Credential extraction\<close>










section \<open>Outcomes of a scheme verifier\<close>




lemma py_get_not_InvalidToken: "py_get v key dflt \<noteq> Inl InvalidToken"
  by (cases v) simp_all






section \<open>Remote token introspection\<close>




section \<open>Errors in security definitions\<close>




section \<open>The two factories\<close>

lemma resolve_async_check_bearer_token:
  "resolve (async_check_bearer_token token_info_func request token required_scopes) s =
   check_bearer_token (\<lambda>token. awaited (token_info_func token)) request token required_scopes s"
  by (simp add: async_check_bearer_token_def check_bearer_token_def resolve_Coroutine
      split: prod.splits sum.splits)

lemma resolve_async_check_basic_auth:
  "resolve (async_check_basic_auth basic_info_func request username password required_scopes) s =
   check_basic_auth (\<lambda>u p sc. awaited (basic_info_func u p sc)) request username password
     required_scopes s"
  by (simp add: async_check_basic_auth_def check_basic_auth_def resolve_Coroutine
      split: prod.splits sum.splits)

lemma resolve_async_check_api_key:
  "resolve (async_check_api_key api_key_info_func request api_key required_scopes) s =
   check_api_key (\<lambda>k sc. awaited (api_key_info_func k sc)) request api_key required_scopes s"
  by (simp add: async_check_api_key_def check_api_key_def resolve_Coroutine
      split: prod.splits sum.splits)

lemma resolve_async_check_oauth_func:
  "resolve (async_check_oauth_func token_info_func scope_validate_func request token
              required_scopes) s =
   check_oauth_func (\<lambda>token. awaited (token_info_func token))
     (\<lambda>required token_scopes. awaited (scope_validate_func required token_scopes))
     request token required_scopes s"
  by (simp add: async_check_oauth_func_def check_oauth_func_def resolve_Coroutine
      split: prod.splits sum.splits)

text \<open>
  Claim C9: the asynchronous orchestrator on a list of verifiers is the synchronous one on the
  same verifiers with their results awaited, in its result, in the context it installs and in
  the failure it raises; on verifiers that return at once the two are the same function. The
  coroutine of each asynchronous check wrapper, awaited, is the synchronous wrapper on the
  awaited verification function.
\<close>

theorem sync_async_equivalence:
  "async_verify_security afs required_scopes function request s =
     verify_security (map awaited_func afs) required_scopes function request s
   \<and> async_verify_security (map immediate fs) required_scopes function request s =
     verify_security fs required_scopes function request s
   \<and> resolve (async_check_bearer_token token_info_func request token required_scopes) s =
     check_bearer_token (\<lambda>token. awaited (token_info_func token)) request token required_scopes s
   \<and> resolve (async_check_basic_auth basic_info_func request username password required_scopes) s =
     check_basic_auth (\<lambda>u p sc. awaited (basic_info_func u p sc)) request username password
       required_scopes s
   \<and> resolve (async_check_api_key api_key_info_func request api_key required_scopes) s =
     check_api_key (\<lambda>k sc. awaited (api_key_info_func k sc)) request api_key required_scopes s
   \<and> resolve (async_check_oauth_func token_info_func scope_validate_func request token
                required_scopes) s =
     check_oauth_func (\<lambda>token. awaited (token_info_func token))
       (\<lambda>required token_scopes. awaited (scope_validate_func required token_scopes))
       request token required_scopes s"
  by (simp add: async_verify_security_eq awaited_immediate comp_def
      resolve_async_check_bearer_token resolve_async_check_basic_auth
      resolve_async_check_api_key resolve_async_check_oauth_func)

text \<open>
  Two logging verifiers, as coroutines and as plain functions: the same identity and the
  same log.
\<close>

theorem sync_async_equivalence_witness:
  "async_verify_security
     [logging_coroutine ''bearer'' no_value,
      logging_coroutine ''basic'' (VDict [(''sub'', VStr ''alice'')])]
     [] (\<lambda>request log. (Inr (context request ''user''), log)) anonymous_request []
   = (Inr (Some (VStr ''alice'')), [''bearer'', ''basic''])
   \<and> verify_security
     [logging_verifier ''bearer'' no_value,
      logging_verifier ''basic'' (VDict [(''sub'', VStr ''alice'')])]
     [] (\<lambda>request log. (Inr (context request ''user''), log)) anonymous_request []
   = (Inr (Some (VStr ''alice'')), [''bearer'', ''basic''])"
  using sync_async_equivalence
    [of "[logging_coroutine ''bearer'' no_value,
          logging_coroutine ''basic'' (VDict [(''sub'', VStr ''alice'')])]"
        "[]" "\<lambda>request log. (Inr (context request ''user''), log)" anonymous_request "[]"
        "[logging_verifier ''bearer'' no_value,
          logging_verifier ''basic'' (VDict [(''sub'', VStr ''alice'')])]"
        "\<lambda>token log. (Inr (Value VNone), log)" "''xyz''"
        "\<lambda>u p sc log. (Inr (Value VNone), log)" "''alice''" "''secret''"
        "\<lambda>k sc log. (Inr (Value VNone), log)" "''k1''"
        "\<lambda>required token_scopes log. (Inr (Value (VBool True)), log)"]
  by (simp add: logging_verifier_def logging_coroutine_def awaited_func_def awaited_def
      verify_security_def install_context_def anonymous_request_def)

end
